theory Spec2Isabelle
  imports Main "HOL-Library.Word"
begin

section \<open>Hysteria2 over QUIC: shared protocol values\<close>

text \<open>
  The development follows \<^verbatim>\<open>hysteria2/service.go\<close> (the server) and the client file of
  the same package. Go structs are records, calls on the QUIC connection, the HTTP
  response writer, the streams and the handlers are recorded as a list of effects in
  program order, and what the outside world answers (a dial, a round trip, a read from a
  stream) is an argument of the function that asks for it.

  Isabelle has a single name space for record fields, so a field name that occurs in
  several Go structs keeps its plain name in one record and carries the struct as a
  prefix in the others.
\<close>

type_synonym uint64 = "64 word"
type_synonym uint32 = "32 word"
type_synonym bytes = "8 word list"

text \<open>\<^verbatim>\<open>protocol.AuthRequest{Auth, Rx}\<close> and \<^verbatim>\<open>protocol.AuthResponse{UDPEnabled, Rx, RxAuto}\<close>.\<close>

record AuthRequest =
  Auth :: string
  req_Rx :: uint64

record AuthResponse =
  UDPEnabled :: bool
  Rx :: uint64
  RxAuto :: bool

text \<open>
  Modelled from the spec: the constants of the package \<^verbatim>\<open>internal/protocol\<close>, which is
  not among the sources. The spec fixes the auth URL as host \<^verbatim>\<open>hysteria\<close>, path
  \<^verbatim>\<open>/auth\<close>, and the success status as 233.
\<close>

definition URLHost :: string where
  "URLHost = ''hysteria''"

definition URLPath :: string where
  "URLPath = ''/auth''"

definition StatusAuthOK :: int where
  "StatusAuthOK = 233"

text \<open>\<^verbatim>\<open>http.MethodPost\<close> of the Go standard library.\<close>

definition MethodPost :: string where
  "MethodPost = ''POST''"

text \<open>
  An \<^verbatim>\<open>*http.Request\<close> as far as the handler looks at it: \<^verbatim>\<open>r.Method\<close>, \<^verbatim>\<open>r.Host\<close>,
  \<^verbatim>\<open>r.URL.Path\<close>, and the value \<^verbatim>\<open>protocol.AuthRequestFromHeader(r.Header)\<close> decodes
  from its header (the decoder is outside the sources, so its result is a field).
\<close>

record http_request =
  Method :: string
  Host :: string
  Path :: string
  AuthRequestFromHeader :: AuthRequest

text \<open>Go errors. \<^verbatim>\<open>E.New(args...)\<close> keeps its arguments; \<^verbatim>\<open>baderror.WrapQUIC\<close> is a
  library function and stays uninterpreted; \<^verbatim>\<open>GoError\<close> is an error of the
  environment, named by its text.\<close>

datatype earg = EStr string | EInt int

datatype error =
    GoError string
  | ENew "earg list"
  | ErrInvalid
  | ErrClosed
  | WrapQUIC error
  | Cause error string

text \<open>Connections, sockets and streams are named by a number; a packet conn is the
  socket and the wrappers put around it.\<close>

type_synonym quic_conn = nat
type_synonym udp_conn = nat
type_synonym stream = nat

datatype packet_conn =
    NewUnbindPacketConn udp_conn
  | NewSalamanderConn packet_conn string

datatype transport = Http3RoundTripper packet_conn

text \<open>The congestion senders and the effects a function leaves behind, in program order.\<close>

datatype sender = NewBrutalSender uint64 bool

datatype goroutine = CtxWatcher | LoopMessages quic_conn | HandleStream stream

datatype effect =
    Masquerade http_request
  | AuthResponseToHeader AuthResponse
  | WriteHeader int
  | SetCongestionControl quic_conn sender
  | SetCongestionController quic_conn string int
  | CloseWithError quic_conn int string
  | Go goroutine
  | LogDebug error
  | LogError error
  | DialContext
  | RoundTrip transport AuthRequest
  | BodyClose
  | UdpClose udp_conn
  | OpenStream quic_conn

section \<open>The server: \<^verbatim>\<open>Service\<close> and \<^verbatim>\<open>serverSession\<close>\<close>

record ServiceOptions =
  opt_ContextDone :: bool
  opt_BrutalDebug :: bool
  opt_SendBPS :: uint64
  opt_ReceiveBPS :: uint64
  opt_IgnoreClientBandwidth :: bool
  opt_SalamanderPassword :: string
  opt_UDPDisabled :: bool
  opt_CWND :: int

text \<open>
  \<^verbatim>\<open>ctxDone\<close> says whether \<^verbatim>\<open>s.ctx.Done()\<close> is a channel (a context that can be
  cancelled) or nil.
\<close>

record 'u Service =
  ctxDone :: bool
  brutalDebug :: bool
  sendBPS :: uint64
  receiveBPS :: uint64
  ignoreClientBandwidth :: bool
  salamanderPassword :: string
  userMap :: "string \<rightharpoonup> 'u"
  udpDisabled :: bool
  cwnd :: int

text \<open>
  \<^verbatim>\<open>NewService\<close> copies the options field by field. The struct literal has no entry for
  \<^verbatim>\<open>cwnd\<close>, so that field keeps Go's zero value.
\<close>

definition NewService :: "ServiceOptions \<Rightarrow> 'u Service" where
  "NewService options =
     \<lparr> ctxDone = opt_ContextDone options,
       brutalDebug = opt_BrutalDebug options,
       sendBPS = opt_SendBPS options,
       receiveBPS = opt_ReceiveBPS options,
       ignoreClientBandwidth = opt_IgnoreClientBandwidth options,
       salamanderPassword = opt_SalamanderPassword options,
       userMap = Map.empty,
       udpDisabled = opt_UDPDisabled options,
       cwnd = 0 \<rparr>"

text \<open>
  \<^verbatim>\<open>UpdateUsers\<close>: the loop indexes \<^verbatim>\<open>passwordList[i]\<close> for every user, which panics
  (\<open>None\<close>) when the password list is the shorter one.
\<close>

fun UpdateUsers_loop :: "'u list \<Rightarrow> string list \<Rightarrow> (string \<rightharpoonup> 'u) \<Rightarrow> (string \<rightharpoonup> 'u) option" where
  "UpdateUsers_loop [] passwordList m = Some m"
| "UpdateUsers_loop (user # userList) [] m = None"
| "UpdateUsers_loop (user # userList) (p # passwordList) m =
     UpdateUsers_loop userList passwordList (m(p \<mapsto> user))"

definition UpdateUsers :: "'u Service \<Rightarrow> 'u list \<Rightarrow> string list \<Rightarrow> 'u Service option" where
  "UpdateUsers s userList passwordList =
     map_option (\<lambda>m. s\<lparr>userMap := m\<rparr>) (UpdateUsers_loop userList passwordList Map.empty)"

text \<open>
  The session of one accepted QUIC connection. \<^verbatim>\<open>connDone\<close> is true once the channel
  is closed. The embedded \<^verbatim>\<open>*Service\<close> is passed next to the session.
\<close>

datatype socksaddr = SocksaddrFromNet string | ParseSocksaddr string

record 'u serverSession =
  s_quicConn :: quic_conn
  source :: socksaddr
  s_connDone :: bool
  s_connErr :: "error option"
  authenticated :: bool
  authUser :: 'u

text \<open>\<^verbatim>\<open>handleConnection\<close> starts every session unauthenticated, with \<^verbatim>\<open>authUser\<close> the
  zero value of the user type.\<close>

definition newSession :: "quic_conn \<Rightarrow> string \<Rightarrow> 'u \<Rightarrow> 'u serverSession" where
  "newSession connection remoteAddr zero =
     \<lparr> s_quicConn = connection, source = SocksaddrFromNet remoteAddr,
       s_connDone = False, s_connErr = None, authenticated = False, authUser = zero \<rparr>"

definition ServeHTTP :: "'u Service \<Rightarrow> 'u serverSession \<Rightarrow> http_request \<Rightarrow> 'u serverSession \<times> effect list" where
  "ServeHTTP svc s r =
     (if Method r = MethodPost \<and> Host r = URLHost \<and> Path r = URLPath then
        if authenticated s then
          (s, [AuthResponseToHeader
                 \<lparr> UDPEnabled = \<not> udpDisabled svc, Rx = receiveBPS svc,
                   RxAuto = ignoreClientBandwidth svc \<rparr>,
               WriteHeader StatusAuthOK])
        else
          let request = AuthRequestFromHeader r in
          case userMap svc (Auth request) of
            None \<Rightarrow> (s, [Masquerade r])
          | Some user \<Rightarrow>
              (s\<lparr> authUser := user, authenticated := True \<rparr>,
               [if \<not> ignoreClientBandwidth svc \<and> req_Rx request > 0 then
                  SetCongestionControl (s_quicConn s)
                    (NewBrutalSender
                       (if sendBPS svc > 0 \<and> sendBPS svc < req_Rx request
                        then sendBPS svc else req_Rx request)
                       (brutalDebug svc))
                else SetCongestionController (s_quicConn s) ''bbr'' (cwnd svc),
                AuthResponseToHeader
                  \<lparr> UDPEnabled = \<not> udpDisabled svc, Rx = receiveBPS svc,
                    RxAuto = ignoreClientBandwidth svc \<rparr>,
                WriteHeader StatusAuthOK]
               @ (if ctxDone svc then [Go CtxWatcher] else [])
               @ (if \<not> udpDisabled svc then [Go (LoopMessages (s_quicConn s))] else []))
      else (s, [Masquerade r]))"

text \<open>\<^verbatim>\<open>closeWithError\<close>: single entry, guarded by the done channel. The flag says what
  \<^verbatim>\<open>E.IsClosedOrCanceled(err)\<close> answers.\<close>

definition closeWithError :: "'u serverSession \<Rightarrow> error \<Rightarrow> bool \<Rightarrow> 'u serverSession \<times> effect list" where
  "closeWithError s err closedOrCanceled =
     (if s_connDone s then (s, [])
      else (s\<lparr> s_connErr := Some err, s_connDone := True \<rparr>,
            [if closedOrCanceled then LogDebug (Cause err ''connection failed'')
             else LogError (Cause err ''connection failed''),
             CloseWithError (s_quicConn s) 0 []]))"

subsection \<open>Observing a session\<close>


fun is_install :: "effect \<Rightarrow> bool" where
  "is_install (SetCongestionControl q sender) = True"
| "is_install (SetCongestionController q name w) = True"
| "is_install e = False"



subsection \<open>The stream hijacker\<close>

text \<open>
  What travels on a stream: the frames \<^verbatim>\<open>protocol.WriteTCPRequest\<close> and
  \<^verbatim>\<open>protocol.WriteTCPResponse\<close> build (their byte layout is outside the sources, so the
  calls stay symbolic) and plain payload.
\<close>

datatype wire =
    WriteTCPRequest string bytes
  | WriteTCPResponse bool string bytes
  | Raw bytes

datatype stream_call =
    ReadTCPRequest
  | ReadTCPResponse
  | StreamRead
  | StreamWrite wire
  | CancelRead int
  | StreamClose

record serverConn =
  srv_Stream :: stream
  responseWritten :: bool

datatype 'u handler_effect =
    OnStream stream stream_call
  | NewConnection 'u serverConn socksaddr socksaddr
  | HandlerLogError error

text \<open>
  \<^verbatim>\<open>handleStream0\<close>. The first argument is the constant
  \<^verbatim>\<open>protocol.FrameTypeTCPRequest\<close>, whose value the sources do not give; \<^verbatim>\<open>err\<close> is
  the error the HTTP/3 layer passes in. The result is the pair the hijacker returns
  and the goroutine it starts.
\<close>

definition handleStream0 :: "uint64 \<Rightarrow> 'u serverSession \<Rightarrow> uint64 \<Rightarrow> stream \<Rightarrow> error option \<Rightarrow> (bool \<times> error option) \<times> effect list" where
  "handleStream0 FrameTypeTCPRequest s frameType strm err =
     (if \<not> authenticated s \<or> err \<noteq> None then ((False, None), [])
      else if frameType \<noteq> FrameTypeTCPRequest then ((False, None), [])
      else ((True, None), [Go (HandleStream strm)]))"

text \<open>\<^verbatim>\<open>handleStream\<close>; \<^verbatim>\<open>request\<close> is what \<^verbatim>\<open>protocol.ReadTCPRequest(stream)\<close> returns.\<close>

definition handleStream :: "'u serverSession \<Rightarrow> stream \<Rightarrow> error + string \<Rightarrow> error option \<times> 'u handler_effect list" where
  "handleStream s strm request =
     (case request of
        Inl err \<Rightarrow> (Some (ENew [EStr ''read TCP request'']), [OnStream strm ReadTCPRequest])
      | Inr destinationString \<Rightarrow>
          (None,
           [OnStream strm ReadTCPRequest,
            NewConnection (authUser s) \<lparr> srv_Stream = strm, responseWritten = False \<rparr>
              (source s) (ParseSocksaddr destinationString)]))"

text \<open>The body of the goroutine that \<^verbatim>\<open>handleStream0\<close> starts.\<close>

definition handleStream_go :: "'u serverSession \<Rightarrow> stream \<Rightarrow> error + string \<Rightarrow> 'u handler_effect list" where
  "handleStream_go s strm request =
     (case handleStream s strm request of
        (hErr, es) \<Rightarrow>
          es @ [OnStream strm (CancelRead 0), OnStream strm StreamClose]
          @ (case hErr of
               None \<Rightarrow> []
             | Some e \<Rightarrow>
                 [OnStream strm (CancelRead 0), OnStream strm StreamClose,
                  HandlerLogError (Cause e ''handle stream request'')]))"

subsection \<open>\<^verbatim>\<open>serverConn\<close>\<close>

text \<open>
  A call either returns or panics. \<^verbatim>\<open>HandshakeFailure\<close> evaluates \<^verbatim>\<open>err.Error()\<close>
  after it has set the flag: its argument is the error's text, \<open>None\<close> for a nil error,
  on which that call panics. \<^verbatim>\<open>written\<close> is what \<^verbatim>\<open>c.Stream.Write\<close> answers: the
  count and the error.
\<close>

datatype 'a outcome = Panic | Return 'a

definition HandshakeFailure :: "serverConn \<Rightarrow> string option \<Rightarrow> int \<times> error option \<Rightarrow> serverConn \<times> error option outcome \<times> stream_call list" where
  "HandshakeFailure c err written =
     (if responseWritten c then (c, Return (Some ErrClosed), [])
      else
        (case err of
           None \<Rightarrow> (c\<lparr> responseWritten := True \<rparr>, Panic, [])
         | Some message \<Rightarrow>
             (c\<lparr> responseWritten := True \<rparr>, Return (snd written),
              [StreamWrite (WriteTCPResponse False message [])])))"

definition HandshakeSuccess :: "serverConn \<Rightarrow> int \<times> error option \<Rightarrow> serverConn \<times> error option outcome \<times> stream_call list" where
  "HandshakeSuccess c written =
     (if responseWritten c then (c, Return None, [])
      else (c\<lparr> responseWritten := True \<rparr>, Return (snd written),
            [StreamWrite (WriteTCPResponse True [] [])]))"

definition serverConn_Write :: "serverConn \<Rightarrow> bytes \<Rightarrow> int \<times> error option \<Rightarrow> serverConn \<times> (int \<times> error option) \<times> stream_call list" where
  "serverConn_Write c p written =
     (if \<not> responseWritten c then
        (case snd written of
           Some err \<Rightarrow>
             (c\<lparr> responseWritten := True \<rparr>, (0, Some (WrapQUIC err)),
              [StreamWrite (WriteTCPResponse True [] p)])
         | None \<Rightarrow>
             (c\<lparr> responseWritten := True \<rparr>, (int (length p), None),
              [StreamWrite (WriteTCPResponse True [] p)]))
      else (c, (fst written, map_option WrapQUIC (snd written)), [StreamWrite (Raw p)]))"

text \<open>
  A handler's use of one \<^verbatim>\<open>serverConn\<close>: a sequence of calls, each with the answer of
  the stream's \<^verbatim>\<open>Write\<close>, run in order until one panics. The result is the final conn
  and every call made on the stream.
\<close>

datatype conn_op =
    CallHandshakeSuccess
  | CallHandshakeFailure "string option"
  | CallWrite bytes

fun serverConn_step :: "serverConn \<Rightarrow> conn_op \<Rightarrow> int \<times> error option \<Rightarrow> serverConn \<times> bool \<times> stream_call list" where
  "serverConn_step c CallHandshakeSuccess written =
     (case HandshakeSuccess c written of (c', r, es) \<Rightarrow> (c', r = Panic, es))"
| "serverConn_step c (CallHandshakeFailure err) written =
     (case HandshakeFailure c err written of (c', r, es) \<Rightarrow> (c', r = Panic, es))"
| "serverConn_step c (CallWrite p) written =
     (case serverConn_Write c p written of (c', r, es) \<Rightarrow> (c', False, es))"

fun serverConn_run :: "serverConn \<Rightarrow> (conn_op \<times> (int \<times> error option)) list \<Rightarrow> serverConn \<times> stream_call list" where
  "serverConn_run c [] = (c, [])"
| "serverConn_run c ((op, written) # ops) =
     (case serverConn_step c op written of
        (c', panicked, es) \<Rightarrow>
          if panicked then (c', es)
          else (case serverConn_run c' ops of (c'', es') \<Rightarrow> (c'', es @ es')))"

fun is_response_frame :: "stream_call \<Rightarrow> bool" where
  "is_response_frame (StreamWrite (WriteTCPResponse ok message payload)) = True"
| "is_response_frame call = False"

definition response_frames :: "stream_call list \<Rightarrow> nat" where
  "response_frames es = length (filter is_response_frame es)"

section \<open>The client\<close>

record ClientOptions =
  opt_c_BrutalDebug :: bool
  opt_c_SendBPS :: uint64
  opt_c_ReceiveBPS :: uint64
  opt_c_SalamanderPassword :: string
  opt_c_Password :: string
  opt_c_UDPDisabled :: bool
  opt_c_CWND :: int

text \<open>
  \<^verbatim>\<open>newUDPPacketConn(ctx, quicConn, onClose)\<close> is outside the sources; the record keeps
  the connection it is given and the \<^verbatim>\<open>sessionID\<close> that \<^verbatim>\<open>ListenPacket\<close> assigns,
  which starts as Go's zero value.
\<close>

record udpPacketConn =
  pc_quicConn :: quic_conn
  sessionID :: uint32


record clientQUICConnection =
  quicConn :: quic_conn
  rawConn :: udp_conn
  connDone :: bool
  connErr :: "error option"
  conn_udpDisabled :: bool
  udpConnMap :: "uint32 \<rightharpoonup> udpPacketConn"
  udpSessionID :: uint32

text \<open>
  \<^verbatim>\<open>conn\<close> is the pointer \<^verbatim>\<open>c.conn\<close>: \<open>None\<close> for nil, otherwise the connection it
  points to. Every connection \<^verbatim>\<open>offer\<close> returns is the one stored there, so a write
  through the returned pointer is a write to this field.
\<close>

record Client =
  c_brutalDebug :: bool
  c_sendBPS :: uint64
  c_receiveBPS :: uint64
  c_salamanderPassword :: string
  password :: string
  c_udpDisabled :: bool
  c_cwnd :: int
  conn :: "clientQUICConnection option"

definition NewClient :: "ClientOptions \<Rightarrow> Client" where
  "NewClient options =
     \<lparr> c_brutalDebug = opt_c_BrutalDebug options,
       c_sendBPS = opt_c_SendBPS options,
       c_receiveBPS = opt_c_ReceiveBPS options,
       c_salamanderPassword = opt_c_SalamanderPassword options,
       password = opt_c_Password options,
       c_udpDisabled = opt_c_UDPDisabled options,
       c_cwnd = opt_c_CWND options,
       conn = None \<rparr>"

text \<open>
  \<^verbatim>\<open>qtls.CreateTransport\<close> (quic.go) builds the round tripper and always returns a nil
  error.
\<close>

definition CreateTransport :: "packet_conn \<Rightarrow> error + transport" where
  "CreateTransport packetConn = Inr (Http3RoundTripper packetConn)"

text \<open>
  An \<^verbatim>\<open>*http.Response\<close>: its status code and the value
  \<^verbatim>\<open>protocol.AuthResponseFromHeader(response.Header)\<close> decodes from its header.
\<close>

record http_response =
  StatusCode :: int
  AuthResponseFromHeader :: AuthResponse

text \<open>
  What \<^verbatim>\<open>http3Transport.RoundTrip\<close> leaves behind. The transport's \<^verbatim>\<open>Dial\<close> closure
  writes the connection it dialed into the local variable \<^verbatim>\<open>quicConn\<close> (\<open>quicConn'\<close>
  below). A round trip that fails may or may not have dialed; a response has come over
  the connection the closure dialed, so the variable is not nil then.
\<close>

datatype round_trip =
    RoundTripError "quic_conn option" error
  | RoundTripResponse quic_conn http_response

text \<open>
  The answers of the outside world during one \<^verbatim>\<open>offer\<close>: whether the stored
  connection's QUIC context is done, what the dialer returns, and the round trip.
\<close>

record offer_env =
  env_quicContextDone :: bool
  env_DialContext :: "error + udp_conn"
  env_RoundTrip :: round_trip

definition active :: "clientQUICConnection \<Rightarrow> bool \<Rightarrow> bool" where
  "active c quicContextDone =
     (if quicContextDone then False else if connDone c then False else True)"

definition offerNew :: "Client \<Rightarrow> offer_env \<Rightarrow> Client \<times> (error + clientQUICConnection) \<times> effect list" where
  "offerNew c env =
     (case env_DialContext env of
        Inl err \<Rightarrow> (c, Inl err, [DialContext])
      | Inr udpConn \<Rightarrow>
          let packetConn = NewUnbindPacketConn udpConn;
              packetConn = (if c_salamanderPassword c \<noteq> []
                            then NewSalamanderConn packetConn (c_salamanderPassword c)
                            else packetConn)
          in
          (case CreateTransport packetConn of
             Inl err \<Rightarrow> (c, Inl err, [DialContext, UdpClose udpConn])
           | Inr http3Transport \<Rightarrow>
               let request = \<lparr> Auth = password c, req_Rx = c_receiveBPS c \<rparr> in
               (case env_RoundTrip env of
                  RoundTripError quicConn' err \<Rightarrow>
                    (c, Inl err,
                     [DialContext, RoundTrip http3Transport request]
                     @ (case quicConn' of None \<Rightarrow> [] | Some q \<Rightarrow> [CloseWithError q 0 []])
                     @ [UdpClose udpConn])
                | RoundTripResponse q response \<Rightarrow>
                    let quicConn' = Some q in
                    if StatusCode response \<noteq> StatusAuthOK then
                      (c,
                       Inl (ENew [EStr ''authentication failed, status code: '',
                                  EInt (StatusCode response)]),
                       [DialContext, RoundTrip http3Transport request]
                       @ (case quicConn' of None \<Rightarrow> [] | Some q \<Rightarrow> [CloseWithError q 0 []])
                       @ [UdpClose udpConn])
                    else
                      let authResponse = AuthResponseFromHeader response;
                          actualTx = Rx authResponse;
                          actualTx = (if actualTx = 0 \<or> actualTx > c_sendBPS c
                                      then c_sendBPS c else actualTx);
                          conn' = \<lparr> quicConn = q, rawConn = udpConn, connDone = False,
                                    connErr = None,
                                    conn_udpDisabled = (c_udpDisabled c \<or> \<not> UDPEnabled authResponse),
                                    udpConnMap = Map.empty, udpSessionID = 0 \<rparr>
                      in
                      (c\<lparr> conn := Some conn' \<rparr>, Inr conn',
                       [DialContext, RoundTrip http3Transport request, BodyClose,
                        if \<not> RxAuto authResponse \<and> actualTx > 0
                        then SetCongestionControl q (NewBrutalSender actualTx (c_brutalDebug c))
                        else SetCongestionController q ''bbr'' (c_cwnd c)]
                       @ (if \<not> c_udpDisabled c then [Go (LoopMessages q)] else [])))))"

text \<open>
  \<^verbatim>\<open>offer\<close>: the check before the lock and the check after it read the same state in
  a sequential run.
\<close>

definition offer :: "Client \<Rightarrow> offer_env \<Rightarrow> Client \<times> (error + clientQUICConnection) \<times> effect list" where
  "offer c env =
     (case conn c of
        Some cn \<Rightarrow>
          if active cn (env_quicContextDone env) then (c, Inr cn, [])
          else if active cn (env_quicContextDone env) then (c, Inr cn, [])
          else (case offerNew c env of
                  (c', Inl err, es) \<Rightarrow> (c', Inl err, es)
                | (c', Inr cn', es) \<Rightarrow> (c', Inr cn', es))
      | None \<Rightarrow>
          (case offerNew c env of
             (c', Inl err, es) \<Rightarrow> (c', Inl err, es)
           | (c', Inr cn', es) \<Rightarrow> (c', Inr cn', es)))"


text \<open>The close callback \<^verbatim>\<open>ListenPacket\<close> hands to the packet conn.\<close>

definition ListenPacket_onClose :: "clientQUICConnection \<Rightarrow> uint32 \<Rightarrow> clientQUICConnection" where
  "ListenPacket_onClose cn sessionID' = cn\<lparr> udpConnMap := (udpConnMap cn)(sessionID' := None) \<rparr>"

subsection \<open>\<^verbatim>\<open>clientConn\<close>\<close>

record clientConn =
  Stream :: stream
  destination :: string
  requestWritten :: bool
  responseRead :: bool

text \<open>\<^verbatim>\<open>DialConn\<close>; \<^verbatim>\<open>opened\<close> is what \<^verbatim>\<open>conn.quicConn.OpenStream()\<close> returns.\<close>

definition DialConn :: "Client \<Rightarrow> offer_env \<Rightarrow> error + stream \<Rightarrow> string \<Rightarrow> Client \<times> (error + clientConn) \<times> effect list" where
  "DialConn c env opened dest =
     (case offer c env of
        (c', Inl err, es) \<Rightarrow> (c', Inl err, es)
      | (c', Inr cn, es) \<Rightarrow>
          (case opened of
             Inl err \<Rightarrow> (c', Inl err, es @ [OpenStream (quicConn cn)])
           | Inr strm \<Rightarrow>
               (c', Inr \<lparr> Stream = strm, destination = dest, requestWritten = False,
                         responseRead = False \<rparr>,
                es @ [OpenStream (quicConn cn)])))"

text \<open>
  \<^verbatim>\<open>clientConn.Read\<close>; \<^verbatim>\<open>response\<close> is what \<^verbatim>\<open>protocol.ReadTCPResponse(c.Stream)\<close>
  returns when it is called (the status and the message, or an error), \<^verbatim>\<open>got\<close> what
  \<^verbatim>\<open>c.Stream.Read(p)\<close> returns when it is called.
\<close>

definition clientConn_Read :: "clientConn \<Rightarrow> error + bool \<times> string \<Rightarrow> int \<times> error option \<Rightarrow> clientConn \<times> (int \<times> error option) \<times> stream_call list" where
  "clientConn_Read c response got =
     (if responseRead c then (c, (fst got, map_option WrapQUIC (snd got)), [StreamRead])
      else
        (case response of
           Inl err \<Rightarrow> (c, (0, Some (WrapQUIC err)), [ReadTCPResponse])
         | Inr (status, errorMessage) \<Rightarrow>
             if \<not> status then
               (c, (0, Some (ENew [EStr ''remote error: '', EStr errorMessage])), [ReadTCPResponse])
             else
               (c\<lparr> responseRead := True \<rparr>, (fst got, map_option WrapQUIC (snd got)),
                [ReadTCPResponse, StreamRead])))"

text \<open>Successive reads on one conn, each with the answers of the stream.\<close>

fun clientConn_Reads :: "clientConn \<Rightarrow> ((error + bool \<times> string) \<times> (int \<times> error option)) list \<Rightarrow> ((int \<times> error option) \<times> stream_call list) list" where
  "clientConn_Reads c [] = []"
| "clientConn_Reads c ((response, got) # rest) =
     (case clientConn_Read c response got of
        (c', r, es) \<Rightarrow> (r, es) # clientConn_Reads c' rest)"

definition clientConn_Write :: "clientConn \<Rightarrow> bytes \<Rightarrow> int \<times> error option \<Rightarrow> clientConn \<times> (int \<times> error option) \<times> stream_call list" where
  "clientConn_Write c p written =
     (if \<not> requestWritten c then
        (case snd written of
           Some err \<Rightarrow> (c, (0, Some err), [StreamWrite (WriteTCPRequest (destination c) p)])
         | None \<Rightarrow>
             (c\<lparr> requestWritten := True \<rparr>, (int (length p), None),
              [StreamWrite (WriteTCPRequest (destination c) p)]))
      else (c, (fst written, map_option WrapQUIC (snd written)), [StreamWrite (Raw p)]))"

subsection \<open>Observing the client\<close>

text \<open>
  The packet conn \<^verbatim>\<open>offerNew\<close> hands to the transport: the dialed socket in its unbind
  adapter, inside a Salamander conn when a password is set.
\<close>

definition offerNew_packetConn :: "Client \<Rightarrow> udp_conn \<Rightarrow> packet_conn" where
  "offerNew_packetConn c udpConn =
     (if c_salamanderPassword c \<noteq> []
      then NewSalamanderConn (NewUnbindPacketConn udpConn) (c_salamanderPassword c)
      else NewUnbindPacketConn udpConn)"

text \<open>
  Every session id registered on a connection lies below its counter. This holds on a
  new connection and is kept by \<^verbatim>\<open>ListenPacket\<close> until the counter wraps.
\<close>

definition ids_below_counter :: "clientQUICConnection \<Rightarrow> bool" where
  "ids_below_counter cn \<longleftrightarrow> (\<forall>k\<in>dom (udpConnMap cn). k < udpSessionID cn)"

section \<open>Concrete configurations\<close>

text \<open>The values of the first scenario: a server with one user and a cap of 80 Mbps, a
  client that asks for 50 Mbps.\<close>

definition ex_ServiceOptions :: ServiceOptions where
  "ex_ServiceOptions =
     \<lparr> opt_ContextDone = True, opt_BrutalDebug = False, opt_SendBPS = 80000000,
       opt_ReceiveBPS = 100000000, opt_IgnoreClientBandwidth = False,
       opt_SalamanderPassword = [], opt_UDPDisabled = False, opt_CWND = 32 \<rparr>"

definition ex_service :: "nat Service" where
  "ex_service = (NewService ex_ServiceOptions)\<lparr> userMap := [''p'' \<mapsto> 7] \<rparr>"

definition ex_session :: "nat serverSession" where
  "ex_session = newSession 1 ''192.0.2.1:4433'' 0"

definition auth_post :: "string \<Rightarrow> uint64 \<Rightarrow> http_request" where
  "auth_post pw rx =
     \<lparr> Method = MethodPost, Host = URLHost, Path = URLPath,
       AuthRequestFromHeader = \<lparr> Auth = pw, req_Rx = rx \<rparr> \<rparr>"

definition ex_get :: http_request where
  "ex_get = \<lparr> Method = ''GET'', Host = ''example.com'', Path = ''/'',
              AuthRequestFromHeader = \<lparr> Auth = [], req_Rx = 0 \<rparr> \<rparr>"

definition ex_serverConn :: serverConn where
  "ex_serverConn = \<lparr> srv_Stream = 4, responseWritten = False \<rparr>"

definition ex_authenticated :: "nat serverSession" where
  "ex_authenticated = ex_session\<lparr> authUser := 7, authenticated := True \<rparr>"

definition ex_ClientOptions :: ClientOptions where
  "ex_ClientOptions =
     \<lparr> opt_c_BrutalDebug = False, opt_c_SendBPS = 100000000, opt_c_ReceiveBPS = 50000000,
       opt_c_SalamanderPassword = [], opt_c_Password = ''p'', opt_c_UDPDisabled = False,
       opt_c_CWND = 32 \<rparr>"

definition ex_client :: Client where
  "ex_client = NewClient ex_ClientOptions"

definition ex_response :: "int \<Rightarrow> bool \<Rightarrow> uint64 \<Rightarrow> bool \<Rightarrow> http_response" where
  "ex_response status udp rx auto =
     \<lparr> StatusCode = status,
       AuthResponseFromHeader = \<lparr> UDPEnabled = udp, Rx = rx, RxAuto = auto \<rparr> \<rparr>"

definition ex_env :: "http_response \<Rightarrow> offer_env" where
  "ex_env response =
     \<lparr> env_quicContextDone = False, env_DialContext = Inr 5,
       env_RoundTrip = RoundTripResponse 9 response \<rparr>"

definition ex_clientConn :: clientConn where
  "ex_clientConn = \<lparr> Stream = 4, destination = ''example.com:80'', requestWritten = True,
                     responseRead = False \<rparr>"



section \<open>Properties of the server session\<close>

lemma ex_service_UpdateUsers:
  "UpdateUsers (NewService ex_ServiceOptions) [7] [''p''] = Some ex_service"
  by (simp add: UpdateUsers_def ex_service_def)

text \<open>
  The window the server hands to BBR is the field \<^verbatim>\<open>cwnd\<close>, and \<^verbatim>\<open>NewService\<close> leaves
  it at zero whatever the \<^verbatim>\<open>CWND\<close> option says.
\<close>

lemma NewService_cwnd: "cwnd (NewService options) = 0"
  by (simp add: NewService_def)

lemma ServeHTTP_other:
  "Method r \<noteq> MethodPost \<or> Host r \<noteq> URLHost \<or> Path r \<noteq> URLPath \<Longrightarrow>
   ServeHTTP svc s r = (s, [Masquerade r])"
  by (auto simp: ServeHTTP_def)

lemma ServeHTTP_unknown:
  "Method r = MethodPost \<Longrightarrow> Host r = URLHost \<Longrightarrow> Path r = URLPath \<Longrightarrow> \<not> authenticated s \<Longrightarrow>
   userMap svc (Auth (AuthRequestFromHeader r)) = None \<Longrightarrow>
   ServeHTTP svc s r = (s, [Masquerade r])"
  by (simp add: ServeHTTP_def)








subsection \<open>Congestion control on the server\<close>

text \<open>
  C2, as stated, at a concrete input. The service does not ignore the client's
  bandwidth, the password \<^verbatim>\<open>p\<close> is known and the request's rx is 0. BBR is installed,
  and the auth response is written with \<^verbatim>\<open>RxAuto = false\<close>: rx is not advertised as
  auto.
\<close>

theorem ServeHTTP_rx_zero_response_not_auto:
  "\<not> ignoreClientBandwidth ex_service \<and>
   userMap ex_service ''p'' = Some 7 \<and>
   req_Rx (AuthRequestFromHeader (auth_post ''p'' 0)) = 0 \<and>
   snd (ServeHTTP ex_service ex_session (auth_post ''p'' 0)) =
     [SetCongestionController 1 ''bbr'' 0,
      AuthResponseToHeader \<lparr> UDPEnabled = True, Rx = 100000000, RxAuto = False \<rparr>,
      WriteHeader 233, Go CtxWatcher, Go (LoopMessages 1)]"
  by (simp add: ServeHTTP_def ex_service_def ex_session_def auth_post_def NewService_def
      ex_ServiceOptions_def newSession_def StatusAuthOK_def)

text \<open>
  C2, amended. When an auth POST with a known password is accepted on a session that
  is not yet authenticated: if \<^verbatim>\<open>ignoreClientBandwidth\<close> is set or the request's rx is
  0, BBR is installed by \<^verbatim>\<open>SetCongestionController(quicConn, "bbr", s.cwnd)\<close>; otherwise
  Brutal is installed at \<^verbatim>\<open>sendBPS\<close> when \<^verbatim>\<open>0 < sendBPS < request.Rx\<close> and at
  \<^verbatim>\<open>request.Rx\<close> otherwise, which is the smaller of the two caps with a \<^verbatim>\<open>sendBPS\<close> of 0
  read as no local cap. The auth response advertises rx as auto exactly when
  \<^verbatim>\<open>ignoreClientBandwidth\<close> is set, whatever the request's rx.
\<close>

theorem ServeHTTP_congestion_policy:
  assumes "Method r = MethodPost" and "Host r = URLHost" and "Path r = URLPath"
    and "\<not> authenticated s"
    and "userMap svc (Auth (AuthRequestFromHeader r)) = Some user"
  shows "ServeHTTP svc s r =
     (s\<lparr> authUser := user, authenticated := True \<rparr>,
      [if ignoreClientBandwidth svc \<or> req_Rx (AuthRequestFromHeader r) = 0
       then SetCongestionController (s_quicConn s) ''bbr'' (cwnd svc)
       else SetCongestionControl (s_quicConn s)
              (NewBrutalSender
                 (if 0 < sendBPS svc \<and> sendBPS svc < req_Rx (AuthRequestFromHeader r)
                  then sendBPS svc else req_Rx (AuthRequestFromHeader r))
                 (brutalDebug svc)),
       AuthResponseToHeader
         \<lparr> UDPEnabled = \<not> udpDisabled svc, Rx = receiveBPS svc,
           RxAuto = ignoreClientBandwidth svc \<rparr>,
       WriteHeader StatusAuthOK]
      @ (if ctxDone svc then [Go CtxWatcher] else [])
      @ (if \<not> udpDisabled svc then [Go (LoopMessages (s_quicConn s))] else []))
   \<and> (if 0 < sendBPS svc \<and> sendBPS svc < req_Rx (AuthRequestFromHeader r)
       then sendBPS svc else req_Rx (AuthRequestFromHeader r)) =
      (if sendBPS svc = 0 then req_Rx (AuthRequestFromHeader r)
       else min (sendBPS svc) (req_Rx (AuthRequestFromHeader r)))"
proof -
  have pos: "\<And>x::uint64. (0 < x) = (x \<noteq> 0)"
    by (simp add: word_gt_0)
  show ?thesis
    using assms by (auto simp: ServeHTTP_def Let_def pos min_def)
qed

theorem ServeHTTP_congestion_policy_witness:
  "ServeHTTP ex_service ex_session (auth_post ''p'' 50000000) =
     (ex_session\<lparr> authUser := 7, authenticated := True \<rparr>,
      [SetCongestionControl 1 (NewBrutalSender 50000000 False),
       AuthResponseToHeader \<lparr> UDPEnabled = True, Rx = 100000000, RxAuto = False \<rparr>,
       WriteHeader 233, Go CtxWatcher, Go (LoopMessages 1)])"
proof -
  have a: "Method (auth_post ''p'' 50000000) = MethodPost" by (simp add: auth_post_def)
  have b: "Host (auth_post ''p'' 50000000) = URLHost" by (simp add: auth_post_def)
  have c: "Path (auth_post ''p'' 50000000) = URLPath" by (simp add: auth_post_def)
  have d: "\<not> authenticated ex_session" by (simp add: ex_session_def newSession_def)
  have e: "userMap ex_service (Auth (AuthRequestFromHeader (auth_post ''p'' 50000000))) = Some 7"
    by (simp add: ex_service_def auth_post_def)
  show ?thesis
    using ServeHTTP_congestion_policy [OF a b c d e]
    by (simp add: ex_service_def ex_session_def auth_post_def NewService_def
        ex_ServiceOptions_def newSession_def StatusAuthOK_def)
qed

subsection \<open>Masquerade\<close>

text \<open>
  C4. A request whose method, host or path differs from the auth URL, and on a session
  that is not authenticated an auth request whose password is not in the user map, go
  to the masquerade handler and to nothing else. The session is returned unchanged, so
  an \<^verbatim>\<open>authenticated\<close> flag that is false stays false and \<^verbatim>\<open>authUser\<close> keeps its
  value; no call closes the QUIC connection and no goroutine is started.
\<close>

theorem ServeHTTP_masquerade:
  assumes "Method r \<noteq> MethodPost \<or> Host r \<noteq> URLHost \<or> Path r \<noteq> URLPath \<or>
           (\<not> authenticated s \<and> userMap svc (Auth (AuthRequestFromHeader r)) = None)"
  shows "snd (ServeHTTP svc s r) = [Masquerade r] \<and>
         (\<not> authenticated s \<longrightarrow> \<not> authenticated (fst (ServeHTTP svc s r))) \<and>
         authUser (fst (ServeHTTP svc s r)) = authUser s \<and>
         fst (ServeHTTP svc s r) = s \<and>
         (\<forall>q code reason. CloseWithError q code reason \<notin> set (snd (ServeHTTP svc s r))) \<and>
         (\<forall>g. Go g \<notin> set (snd (ServeHTTP svc s r)))"
proof -
  have "ServeHTTP svc s r = (s, [Masquerade r])"
    using assms ServeHTTP_other [of r svc s] ServeHTTP_unknown [of r s svc] by blast
  then show ?thesis by simp
qed

theorem ServeHTTP_masquerade_witness:
  "ServeHTTP ex_service ex_session ex_get = (ex_session, [Masquerade ex_get]) \<and>
   ServeHTTP ex_service ex_session (auth_post ''q'' 50000000) =
     (ex_session, [Masquerade (auth_post ''q'' 50000000)]) \<and>
   \<not> authenticated ex_session \<and>
   \<not> authenticated (fst (ServeHTTP ex_service ex_session (auth_post ''q'' 50000000)))"
proof -
  have d: "\<not> authenticated ex_session" by (simp add: ex_session_def newSession_def)
  have m: "Method ex_get \<noteq> MethodPost \<or> Host ex_get \<noteq> URLHost \<or> Path ex_get \<noteq> URLPath \<or>
         (\<not> authenticated ex_session \<and>
          userMap ex_service (Auth (AuthRequestFromHeader ex_get)) = None)"
    by (simp add: ex_get_def MethodPost_def)
  have p: "Method (auth_post ''q'' 50000000) \<noteq> MethodPost \<or>
         Host (auth_post ''q'' 50000000) \<noteq> URLHost \<or>
         Path (auth_post ''q'' 50000000) \<noteq> URLPath \<or>
         (\<not> authenticated ex_session \<and>
          userMap ex_service (Auth (AuthRequestFromHeader (auth_post ''q'' 50000000))) = None)"
    by (simp add: auth_post_def ex_service_def d)
  show ?thesis
    using ServeHTTP_masquerade [OF m] ServeHTTP_masquerade [OF p] d
    by (simp add: prod_eq_iff)
qed

subsection \<open>One controller per session\<close>



section \<open>Properties of the stream hijacker and of \<^verbatim>\<open>serverConn\<close>\<close>

text \<open>
  C7. \<^verbatim>\<open>handleStream0\<close> answers true, and starts the goroutine that owns the stream,
  exactly when the session is authenticated, the HTTP/3 layer reported no error and the
  frame type is \<^verbatim>\<open>FrameTypeTCPRequest\<close>; in every other case it answers
  \<^verbatim>\<open>(false, nil)\<close> and does nothing, which leaves the stream to HTTP/3. The goroutine
  reads the TCP request; when the read gives a destination it calls
  \<^verbatim>\<open>handler.NewConnection\<close> with the authenticated user, a fresh \<^verbatim>\<open>serverConn\<close> on the
  stream, the session's source and the parsed destination. When the read fails there is
  no destination and the handler is not called.
\<close>

theorem handleStream0_hijack:
  "(fst (fst (handleStream0 ft s frameType strm err)) \<longleftrightarrow>
      authenticated s \<and> err = None \<and> frameType = ft)
   \<and> (\<not> authenticated s \<or> frameType \<noteq> ft \<or> err \<noteq> None \<longrightarrow>
        handleStream0 ft s frameType strm err = ((False, None), []))
   \<and> (authenticated s \<and> err = None \<and> frameType = ft \<longrightarrow>
        handleStream0 ft s frameType strm err = ((True, None), [Go (HandleStream strm)]))
   \<and> handleStream_go s strm (Inr destinationString) =
        [OnStream strm ReadTCPRequest,
         NewConnection (authUser s) \<lparr> srv_Stream = strm, responseWritten = False \<rparr>
           (source s) (ParseSocksaddr destinationString),
         OnStream strm (CancelRead 0), OnStream strm StreamClose]
   \<and> (\<forall>u c a d. NewConnection u c a d \<notin> set (handleStream_go s strm (Inl e)))"
  by (simp add: handleStream0_def handleStream_go_def handleStream_def)

theorem handleStream0_hijack_witness:
  "handleStream0 1025 ex_authenticated 1025 4 None = ((True, None), [Go (HandleStream 4)])
   \<and> handleStream0 1025 ex_session 1025 4 None = ((False, None), [])
   \<and> handleStream0 1025 ex_authenticated 0 4 None = ((False, None), [])
   \<and> handleStream_go ex_authenticated 4 (Inr ''example.com:80'') =
        [OnStream 4 ReadTCPRequest,
         NewConnection 7 \<lparr> srv_Stream = 4, responseWritten = False \<rparr>
           (SocksaddrFromNet ''192.0.2.1:4433'') (ParseSocksaddr ''example.com:80''),
         OnStream 4 (CancelRead 0), OnStream 4 StreamClose]"
proof -
  have a: "authenticated ex_authenticated" "\<not> authenticated ex_session"
    "authUser ex_authenticated = 7" "source ex_authenticated = SocksaddrFromNet ''192.0.2.1:4433''"
    by (simp_all add: ex_authenticated_def ex_session_def newSession_def)
  show ?thesis
    using handleStream0_hijack [of 1025 ex_authenticated 1025 4 None "''example.com:80''" "GoError []"]
      handleStream0_hijack [of 1025 ex_session 1025 4 None "''example.com:80''" "GoError []"]
      handleStream0_hijack [of 1025 ex_authenticated 0 4 None "''example.com:80''" "GoError []"]
      a
    by simp
qed

lemma response_frames_append:
  "response_frames (xs @ ys) = response_frames xs + response_frames ys"
  by (simp add: response_frames_def)

lemma serverConn_step_written:
  "responseWritten c \<Longrightarrow> serverConn_step c op w = (c', panicked, es) \<Longrightarrow>
   responseWritten c' \<and> \<not> panicked \<and> response_frames es = 0"
  by (cases op)
     (auto simp: HandshakeSuccess_def HandshakeFailure_def serverConn_Write_def response_frames_def)

lemma serverConn_step_first:
  "\<not> responseWritten c \<Longrightarrow> serverConn_step c op w = (c', panicked, es) \<Longrightarrow>
   responseWritten c' \<and> response_frames es = (if op = CallHandshakeFailure None then 0 else 1)
   \<and> (panicked \<longleftrightarrow> op = CallHandshakeFailure None)"
  by (cases op)
     (auto simp: HandshakeSuccess_def HandshakeFailure_def serverConn_Write_def response_frames_def
        split: option.splits)

lemma serverConn_run_written:
  "responseWritten c \<Longrightarrow> response_frames (snd (serverConn_run c ops)) = 0"
proof (induction ops arbitrary: c)
  case Nil
  show ?case by (simp add: response_frames_def)
next
  case (Cons x ops)
  obtain op w where x: "x = (op, w)" by (cases x)
  obtain c' panicked es where step: "serverConn_step c op w = (c', panicked, es)"
    by (cases "serverConn_step c op w")
  have s: "responseWritten c' \<and> \<not> panicked \<and> response_frames es = 0"
    using serverConn_step_written [OF Cons.prems step] .
  obtain c'' es' where rest: "serverConn_run c' ops = (c'', es')"
    by (cases "serverConn_run c' ops")
  have "response_frames (snd (serverConn_run c' ops)) = 0"
    using s Cons.IH by blast
  then show ?case
    using s by (simp add: x step rest response_frames_append)
qed

lemma serverConn_run_first:
  assumes "\<not> responseWritten c"
  shows "response_frames (snd (serverConn_run c ((op, w) # ops))) =
           (if op = CallHandshakeFailure None then 0 else 1)"
proof -
  obtain c' panicked es where step: "serverConn_step c op w = (c', panicked, es)"
    by (cases "serverConn_step c op w")
  have s: "responseWritten c' \<and> response_frames es = (if op = CallHandshakeFailure None then 0 else 1)
      \<and> (panicked \<longleftrightarrow> op = CallHandshakeFailure None)"
    using serverConn_step_first [OF assms step] .
  obtain c'' es' where rest: "serverConn_run c' ops = (c'', es')"
    by (cases "serverConn_run c' ops")
  have "response_frames (snd (serverConn_run c' ops)) = 0"
    using s serverConn_run_written by blast
  then show ?thesis
    using s by (simp add: step rest response_frames_append)
qed

lemma serverConn_run_le:
  "response_frames (snd (serverConn_run c ops)) \<le> 1"
proof (cases ops)
  case Nil
  then show ?thesis by (simp add: response_frames_def)
next
  case (Cons x rest)
  obtain op w where x: "x = (op, w)" by (cases x)
  show ?thesis
  proof (cases "responseWritten c")
    case True
    then show ?thesis using serverConn_run_written [of c ops] by simp
  next
    case False
    then show ?thesis using serverConn_run_first [of c op w rest] by (simp add: Cons x)
  qed
qed

text \<open>
  C10. Whatever calls a handler makes on a \<^verbatim>\<open>serverConn\<close>, at most one TCP-response
  frame is written. On a conn whose flag is not set, the first call sets it and writes
  the one frame (the call \<^verbatim>\<open>HandshakeFailure(nil)\<close> apart, which panics after setting
  the flag): \<^verbatim>\<open>HandshakeSuccess\<close> a success frame, \<^verbatim>\<open>HandshakeFailure\<close> a failure frame
  with the error's text, \<^verbatim>\<open>Write\<close> a success frame that carries the payload, reporting
  \<^verbatim>\<open>len(p)\<close> when the stream accepts it. Once the flag is set, \<^verbatim>\<open>HandshakeSuccess\<close>
  returns nil and \<^verbatim>\<open>HandshakeFailure\<close> returns \<^verbatim>\<open>os.ErrClosed\<close>, both without a
  write, and \<^verbatim>\<open>Write\<close> passes the payload through unframed.
\<close>

theorem serverConn_single_response:
  "response_frames (snd (serverConn_run c ops)) \<le> 1
   \<and> (\<not> responseWritten c \<and> op \<noteq> CallHandshakeFailure None \<longrightarrow>
        response_frames (snd (serverConn_run c ((op, w) # ops))) = 1
        \<and> response_frames (snd (snd (serverConn_step c op w))) = 1
        \<and> responseWritten (fst (serverConn_step c op w)))
   \<and> (\<not> responseWritten c \<longrightarrow>
        HandshakeSuccess c w =
          (c\<lparr> responseWritten := True \<rparr>, Return (snd w), [StreamWrite (WriteTCPResponse True [] [])])
        \<and> HandshakeFailure c (Some message) w =
          (c\<lparr> responseWritten := True \<rparr>, Return (snd w),
           [StreamWrite (WriteTCPResponse False message [])])
        \<and> fst (serverConn_Write c p w) = c\<lparr> responseWritten := True \<rparr>
        \<and> snd (snd (serverConn_Write c p w)) = [StreamWrite (WriteTCPResponse True [] p)]
        \<and> (snd w = None \<longrightarrow> fst (snd (serverConn_Write c p w)) = (int (length p), None)))
   \<and> (responseWritten c \<longrightarrow>
        HandshakeSuccess c w = (c, Return None, [])
        \<and> HandshakeFailure c err w = (c, Return (Some ErrClosed), [])
        \<and> snd (snd (serverConn_Write c p w)) = [StreamWrite (Raw p)]
        \<and> response_frames (snd (serverConn_run c ops)) = 0)"
proof -
  have one: "\<not> responseWritten c \<and> op \<noteq> CallHandshakeFailure None \<longrightarrow>
        response_frames (snd (serverConn_run c ((op, w) # ops))) = 1
        \<and> response_frames (snd (snd (serverConn_step c op w))) = 1
        \<and> responseWritten (fst (serverConn_step c op w))"
  proof
    assume h: "\<not> responseWritten c \<and> op \<noteq> CallHandshakeFailure None"
    obtain c' panicked es where step: "serverConn_step c op w = (c', panicked, es)"
      by (cases "serverConn_step c op w")
    show "response_frames (snd (serverConn_run c ((op, w) # ops))) = 1
        \<and> response_frames (snd (snd (serverConn_step c op w))) = 1
        \<and> responseWritten (fst (serverConn_step c op w))"
      using h serverConn_run_first [of c op w ops] serverConn_step_first [OF _ step]
      by (simp add: step)
  qed
  have first: "\<not> responseWritten c \<longrightarrow>
        HandshakeSuccess c w =
          (c\<lparr> responseWritten := True \<rparr>, Return (snd w), [StreamWrite (WriteTCPResponse True [] [])])
        \<and> HandshakeFailure c (Some message) w =
          (c\<lparr> responseWritten := True \<rparr>, Return (snd w),
           [StreamWrite (WriteTCPResponse False message [])])
        \<and> fst (serverConn_Write c p w) = c\<lparr> responseWritten := True \<rparr>
        \<and> snd (snd (serverConn_Write c p w)) = [StreamWrite (WriteTCPResponse True [] p)]
        \<and> (snd w = None \<longrightarrow> fst (snd (serverConn_Write c p w)) = (int (length p), None))"
    by (simp add: HandshakeSuccess_def HandshakeFailure_def serverConn_Write_def split: option.splits)
  have later: "responseWritten c \<longrightarrow>
        HandshakeSuccess c w = (c, Return None, [])
        \<and> HandshakeFailure c err w = (c, Return (Some ErrClosed), [])
        \<and> snd (snd (serverConn_Write c p w)) = [StreamWrite (Raw p)]
        \<and> response_frames (snd (serverConn_run c ops)) = 0"
    using serverConn_run_written [of c ops]
    by (simp add: HandshakeSuccess_def HandshakeFailure_def serverConn_Write_def)
  show ?thesis
    using serverConn_run_le [of c ops] one first later by blast
qed

theorem serverConn_single_response_witness:
  "snd (serverConn_run ex_serverConn
      [(CallWrite [104, 105], (30, None)), (CallHandshakeSuccess, (0, None)),
       (CallHandshakeFailure (Some ''refused''), (0, None)), (CallWrite [33], (1, None))]) =
     [StreamWrite (WriteTCPResponse True [] [104, 105]), StreamWrite (Raw [33])]
   \<and> fst (snd (serverConn_Write ex_serverConn [104, 105] (30, None))) = (2, None)
   \<and> HandshakeFailure (ex_serverConn\<lparr> responseWritten := True \<rparr>) (Some ''refused'') (0, None) =
       (ex_serverConn\<lparr> responseWritten := True \<rparr>, Return (Some ErrClosed), [])
   \<and> HandshakeSuccess (ex_serverConn\<lparr> responseWritten := True \<rparr>) (0, None) =
       (ex_serverConn\<lparr> responseWritten := True \<rparr>, Return None, [])
   \<and> response_frames (snd (serverConn_run ex_serverConn
      [(CallWrite [104, 105], (30, None)), (CallHandshakeSuccess, (0, None)),
       (CallHandshakeFailure (Some ''refused''), (0, None)), (CallWrite [33], (1, None))])) = 1"
proof -
  have a: "\<not> responseWritten ex_serverConn" "responseWritten (ex_serverConn\<lparr> responseWritten := True \<rparr>)"
    by (simp_all add: ex_serverConn_def)
  have run: "snd (serverConn_run ex_serverConn
      [(CallWrite [104, 105], (30, None)), (CallHandshakeSuccess, (0, None)),
       (CallHandshakeFailure (Some ''refused''), (0, None)), (CallWrite [33], (1, None))]) =
     [StreamWrite (WriteTCPResponse True [] [104, 105]), StreamWrite (Raw [33])]"
    by (simp add: ex_serverConn_def serverConn_Write_def HandshakeSuccess_def HandshakeFailure_def)
  show ?thesis
    using serverConn_single_response [of ex_serverConn
        "[(CallHandshakeSuccess, (0, None)),
          (CallHandshakeFailure (Some ''refused''), (0, None)), (CallWrite [33], (1, None))]"
        "CallWrite [104, 105]" "(30, None)" "''refused''" "[104, 105]" "Some ''refused''"]
      serverConn_single_response [of "ex_serverConn\<lparr> responseWritten := True \<rparr>" "[]"
        "CallHandshakeSuccess" "(0, None)" "''refused''" "[104, 105]" "Some ''refused''"]
      a run
    by simp
qed

section \<open>Properties of the client\<close>

subsection \<open>\<^verbatim>\<open>offerNew\<close>\<close>

lemma offerNew_success:
  assumes "env_DialContext env = Inr udpConn"
    and "env_RoundTrip env = RoundTripResponse q response"
    and "StatusCode response = StatusAuthOK"
  shows "offerNew c env =
     (let authResponse = AuthResponseFromHeader response;
          actualTx = (if Rx authResponse = 0 \<or> Rx authResponse > c_sendBPS c
                      then c_sendBPS c else Rx authResponse);
          conn' = \<lparr> quicConn = q, rawConn = udpConn, connDone = False, connErr = None,
                    conn_udpDisabled = (c_udpDisabled c \<or> \<not> UDPEnabled authResponse),
                    udpConnMap = Map.empty, udpSessionID = 0 \<rparr>
      in (c\<lparr> conn := Some conn' \<rparr>, Inr conn',
          [DialContext,
           RoundTrip (Http3RoundTripper (offerNew_packetConn c udpConn))
             \<lparr> Auth = password c, req_Rx = c_receiveBPS c \<rparr>,
           BodyClose,
           if \<not> RxAuto authResponse \<and> actualTx > 0
           then SetCongestionControl q (NewBrutalSender actualTx (c_brutalDebug c))
           else SetCongestionController q ''bbr'' (c_cwnd c)]
          @ (if \<not> c_udpDisabled c then [Go (LoopMessages q)] else [])))"
  using assms by (simp add: offerNew_def CreateTransport_def Let_def offerNew_packetConn_def)

lemma offerNew_status:
  assumes "env_DialContext env = Inr udpConn"
    and "env_RoundTrip env = RoundTripResponse q response"
    and "StatusCode response \<noteq> StatusAuthOK"
  shows "offerNew c env =
     (c, Inl (ENew [EStr ''authentication failed, status code: '', EInt (StatusCode response)]),
      [DialContext,
       RoundTrip (Http3RoundTripper (offerNew_packetConn c udpConn))
         \<lparr> Auth = password c, req_Rx = c_receiveBPS c \<rparr>,
       CloseWithError q 0 [], UdpClose udpConn])"
  using assms by (simp add: offerNew_def CreateTransport_def Let_def offerNew_packetConn_def)

text \<open>
  C1. After a successful auth round trip \<^verbatim>\<open>offerNew\<close> installs exactly one congestion
  controller. The negotiated tx is the rx of the auth response, replaced by the client's
  \<^verbatim>\<open>sendBPS\<close> when that rx is 0 or exceeds \<^verbatim>\<open>sendBPS\<close>. If the response has
  \<^verbatim>\<open>RxAuto\<close> or the negotiated tx is 0, BBR is installed with the client's \<^verbatim>\<open>cwnd\<close>,
  which \<^verbatim>\<open>NewClient\<close> takes from the \<^verbatim>\<open>CWND\<close> option; otherwise Brutal is installed at
  the negotiated tx.
\<close>

theorem offerNew_congestion_policy:
  assumes "env_DialContext env = Inr udpConn"
    and "env_RoundTrip env = RoundTripResponse q response"
    and "StatusCode response = StatusAuthOK"
  shows "(let authResponse = AuthResponseFromHeader response;
              tx = (if Rx authResponse = 0 \<or> c_sendBPS c < Rx authResponse
                    then c_sendBPS c else Rx authResponse)
          in filter is_install (snd (snd (offerNew c env))) =
               [if RxAuto authResponse \<or> tx = 0
                then SetCongestionController q ''bbr'' (c_cwnd c)
                else SetCongestionControl q (NewBrutalSender tx (c_brutalDebug c))])
         \<and> c_cwnd (NewClient options) = opt_c_CWND options"
proof -
  have pos: "\<And>x::uint64. (0 < x) = (x \<noteq> 0)"
    by (simp add: word_gt_0)
  show ?thesis
    by (simp add: offerNew_success [OF assms] Let_def pos NewClient_def)
qed

theorem offerNew_congestion_policy_witness:
  "filter is_install (snd (snd (offerNew ex_client (ex_env (ex_response 233 True 50000000 False))))) =
     [SetCongestionControl 9 (NewBrutalSender 50000000 False)]
   \<and> filter is_install (snd (snd (offerNew ex_client (ex_env (ex_response 233 True 50000000 True))))) =
     [SetCongestionController 9 ''bbr'' 32]
   \<and> filter is_install (snd (snd (offerNew ex_client (ex_env (ex_response 233 True 0 False))))) =
     [SetCongestionControl 9 (NewBrutalSender 100000000 False)]"
proof -
  have d: "\<And>r. env_DialContext (ex_env r) = Inr 5"
    and t: "\<And>r. env_RoundTrip (ex_env r) = RoundTripResponse 9 r"
    by (simp_all add: ex_env_def)
  have s: "\<And>u rx a. StatusCode (ex_response 233 u rx a) = StatusAuthOK"
    by (simp add: ex_response_def StatusAuthOK_def)
  have c: "c_sendBPS ex_client = 100000000" "c_cwnd ex_client = 32" "c_brutalDebug ex_client = False"
    by (simp_all add: ex_client_def NewClient_def ex_ClientOptions_def)
  show ?thesis
    using offerNew_congestion_policy [OF d t s [of True 50000000 False], where c = ex_client]
      offerNew_congestion_policy [OF d t s [of True 50000000 True], where c = ex_client]
      offerNew_congestion_policy [OF d t s [of True 0 False], where c = ex_client]
    by (simp add: c ex_response_def Let_def)
qed

text \<open>
  C3, as stated, at a concrete input. The client has UDP enabled, the auth response
  says \<^verbatim>\<open>UDPEnabled = false\<close>, and the receive loop is started all the same.
\<close>

theorem offerNew_loop_when_peer_disables_udp:
  "\<not> c_udpDisabled ex_client \<and>
   \<not> UDPEnabled (AuthResponseFromHeader (ex_response 233 False 50000000 False)) \<and>
   snd (snd (offerNew ex_client (ex_env (ex_response 233 False 50000000 False)))) =
     [DialContext,
      RoundTrip (Http3RoundTripper (NewUnbindPacketConn 5)) \<lparr> Auth = ''p'', req_Rx = 50000000 \<rparr>,
      BodyClose, SetCongestionControl 9 (NewBrutalSender 50000000 False), Go (LoopMessages 9)]"
  by (simp add: offerNew_def CreateTransport_def ex_client_def NewClient_def ex_ClientOptions_def
      ex_env_def ex_response_def StatusAuthOK_def Let_def)

text \<open>
  C3, amended. After a successful auth handshake the client starts the receive loop
  exactly when UDP is not disabled locally, whatever the auth response says about UDP.
  The peer's answer goes into the connection's \<^verbatim>\<open>udpDisabled\<close> flag, which is set when
  either side disables UDP.
\<close>

theorem offerNew_loop_local_flag:
  assumes "env_DialContext env = Inr udpConn"
    and "env_RoundTrip env = RoundTripResponse q response"
    and "StatusCode response = StatusAuthOK"
  shows "(Go (LoopMessages q) \<in> set (snd (snd (offerNew c env))) \<longleftrightarrow> \<not> c_udpDisabled c)
    \<and> ((\<exists>g. Go g \<in> set (snd (snd (offerNew c env)))) \<longleftrightarrow> \<not> c_udpDisabled c)
    \<and> (\<exists>cn. fst (snd (offerNew c env)) = Inr cn \<and>
          (conn_udpDisabled cn \<longleftrightarrow>
             c_udpDisabled c \<or> \<not> UDPEnabled (AuthResponseFromHeader response)))"
  by (auto simp: offerNew_success [OF assms] Let_def)

theorem offerNew_loop_local_flag_witness:
  "Go (LoopMessages 9) \<in> set (snd (snd (offerNew ex_client (ex_env (ex_response 233 False 0 False)))))
   \<and> Go (LoopMessages 9) \<notin>
       set (snd (snd (offerNew (ex_client\<lparr> c_udpDisabled := True \<rparr>)
                       (ex_env (ex_response 233 True 0 False)))))"
proof -
  have d: "\<And>r. env_DialContext (ex_env r) = Inr 5"
    and t: "\<And>r. env_RoundTrip (ex_env r) = RoundTripResponse 9 r"
    by (simp_all add: ex_env_def)
  have s: "\<And>u rx a. StatusCode (ex_response 233 u rx a) = StatusAuthOK"
    by (simp add: ex_response_def StatusAuthOK_def)
  have c: "\<not> c_udpDisabled ex_client" "c_udpDisabled (ex_client\<lparr> c_udpDisabled := True \<rparr>)"
    by (simp_all add: ex_client_def NewClient_def ex_ClientOptions_def)
  show ?thesis
    using offerNew_loop_local_flag [OF d t s [of False 0 False], where c = ex_client]
      offerNew_loop_local_flag [OF d t s [of True 0 False], where c = "ex_client\<lparr> c_udpDisabled := True \<rparr>"]
      c
    by simp
qed

text \<open>
  C6. When the round trip answers with a status other than \<^verbatim>\<open>StatusAuthOK\<close>,
  \<^verbatim>\<open>offerNew\<close> closes the QUIC connection with application error 0 and an empty
  reason, then closes the UDP socket, and returns the error built from
  \<^verbatim>\<open>"authentication failed, status code: "\<close> and the status code. The client comes
  back unchanged, so its stored connection is not replaced.
\<close>

theorem offerNew_authentication_failed:
  assumes "env_DialContext env = Inr udpConn"
    and "env_RoundTrip env = RoundTripResponse q response"
    and "StatusCode response \<noteq> StatusAuthOK"
  shows "offerNew c env =
     (c, Inl (ENew [EStr ''authentication failed, status code: '', EInt (StatusCode response)]),
      [DialContext,
       RoundTrip (Http3RoundTripper (offerNew_packetConn c udpConn))
         \<lparr> Auth = password c, req_Rx = c_receiveBPS c \<rparr>,
       CloseWithError q 0 [], UdpClose udpConn])
     \<and> conn (fst (offerNew c env)) = conn c"
  by (simp add: offerNew_status [OF assms])

theorem offerNew_authentication_failed_witness:
  "offerNew ex_client (ex_env (ex_response 404 True 0 False)) =
     (ex_client, Inl (ENew [EStr ''authentication failed, status code: '', EInt 404]),
      [DialContext,
       RoundTrip (Http3RoundTripper (NewUnbindPacketConn 5)) \<lparr> Auth = ''p'', req_Rx = 50000000 \<rparr>,
       CloseWithError 9 0 [], UdpClose 5])"
proof -
  have d: "\<And>r. env_DialContext (ex_env r) = Inr 5"
    and t: "\<And>r. env_RoundTrip (ex_env r) = RoundTripResponse 9 r"
    by (simp_all add: ex_env_def)
  have s: "StatusCode (ex_response 404 True 0 False) \<noteq> StatusAuthOK"
    by (simp add: ex_response_def StatusAuthOK_def)
  have c: "password ex_client = ''p''" "c_receiveBPS ex_client = 50000000"
    "offerNew_packetConn ex_client 5 = NewUnbindPacketConn 5"
    by (simp_all add: ex_client_def NewClient_def ex_ClientOptions_def offerNew_packetConn_def)
  show ?thesis
    using offerNew_authentication_failed [OF d t s, where c = ex_client]
    by (simp add: c ex_response_def)
qed

subsection \<open>The first read of a client conn\<close>

lemma clientConn_Reads_through:
  "responseRead c \<Longrightarrow>
   clientConn_Reads c answers =
     map (\<lambda>(response, got). ((fst got, map_option WrapQUIC (snd got)), [StreamRead])) answers"
  by (induction answers arbitrary: c) (auto simp: clientConn_Read_def)

text \<open>
  C8. On a client conn whose response has not been read, the first \<^verbatim>\<open>Read\<close> consumes
  the TCP-response frame. When the status is OK it sets \<^verbatim>\<open>responseRead\<close> and reads from
  the stream, and every later \<^verbatim>\<open>Read\<close> is a read of the stream and nothing else. When
  the status is an error it returns 0 bytes and the error built from
  \<^verbatim>\<open>"remote error: "\<close> and the server's message, and \<^verbatim>\<open>responseRead\<close> stays false.
\<close>

theorem clientConn_Read_first:
  assumes "\<not> responseRead c"
  shows "clientConn_Read c (Inr (True, message)) got =
           (c\<lparr> responseRead := True \<rparr>, (fst got, map_option WrapQUIC (snd got)),
            [ReadTCPResponse, StreamRead])
     \<and> clientConn_Reads (fst (clientConn_Read c (Inr (True, message)) got)) answers =
           map (\<lambda>(response, got). ((fst got, map_option WrapQUIC (snd got)), [StreamRead])) answers
     \<and> clientConn_Read c (Inr (False, message)) got =
           (c, (0, Some (ENew [EStr ''remote error: '', EStr message])), [ReadTCPResponse])
     \<and> \<not> responseRead (fst (clientConn_Read c (Inr (False, message)) got))"
proof -
  have ok: "clientConn_Read c (Inr (True, message)) got =
           (c\<lparr> responseRead := True \<rparr>, (fst got, map_option WrapQUIC (snd got)),
            [ReadTCPResponse, StreamRead])"
    using assms by (simp add: clientConn_Read_def)
  have bad: "clientConn_Read c (Inr (False, message)) got =
           (c, (0, Some (ENew [EStr ''remote error: '', EStr message])), [ReadTCPResponse])"
    using assms by (simp add: clientConn_Read_def)
  have "responseRead (c\<lparr> responseRead := True \<rparr>)" by simp
  then have thru: "clientConn_Reads (c\<lparr> responseRead := True \<rparr>) answers =
           map (\<lambda>(response, got). ((fst got, map_option WrapQUIC (snd got)), [StreamRead])) answers"
    by (rule clientConn_Reads_through)
  show ?thesis
    using assms by (simp add: ok bad thru)
qed

theorem clientConn_Read_first_witness:
  "clientConn_Read ex_clientConn (Inr (False, ''connection refused'')) (0, None) =
     (ex_clientConn, (0, Some (ENew [EStr ''remote error: '', EStr ''connection refused''])),
      [ReadTCPResponse])
   \<and> clientConn_Reads ex_clientConn
        [(Inr (True, []), (2, None)), (Inr (True, []), (5, None)),
         (Inl (GoError ''x''), (0, Some (GoError ''EOF'')))] =
      [((2, None), [ReadTCPResponse, StreamRead]), ((5, None), [StreamRead]),
       ((0, Some (WrapQUIC (GoError ''EOF''))), [StreamRead])]"
proof -
  let ?rest = "[(Inr (True, []), (5, None)), (Inl (GoError ''x''), (0, Some (GoError ''EOF'')))]"
  have a: "\<not> responseRead ex_clientConn" by (simp add: ex_clientConn_def)
  note ok = clientConn_Read_first [OF a, of "[]" "(2, None)" ?rest]
  note bad = clientConn_Read_first [OF a, of "''connection refused''" "(0, None)" "[]"]
  have r1: "clientConn_Read ex_clientConn (Inr (True, [])) (2, None) =
              (ex_clientConn\<lparr> responseRead := True \<rparr>, (2, None), [ReadTCPResponse, StreamRead])"
    using ok by simp
  have r2: "clientConn_Reads (ex_clientConn\<lparr> responseRead := True \<rparr>) ?rest =
              [((5, None), [StreamRead]), ((0, Some (WrapQUIC (GoError ''EOF''))), [StreamRead])]"
    using ok unfolding r1 by simp
  have step: "\<And>rest. clientConn_Reads ex_clientConn ((Inr (True, []), (2, None)) # rest) =
      ((2, None), [ReadTCPResponse, StreamRead]) #
      clientConn_Reads (ex_clientConn\<lparr> responseRead := True \<rparr>) rest"
    by (simp add: r1)
  have r3: "clientConn_Read ex_clientConn (Inr (False, ''connection refused'')) (0, None) =
     (ex_clientConn, (0, Some (ENew [EStr ''remote error: '', EStr ''connection refused''])),
      [ReadTCPResponse])"
    using bad by simp
  show ?thesis
    unfolding step r2 using r3 by simp
qed

subsection \<open>\<^verbatim>\<open>ListenPacket\<close>\<close>




lemma ids_below_counter_ListenPacket:
  assumes "ids_below_counter cn" and "udpSessionID cn + 1 \<noteq> 0"
  shows "ids_below_counter
           (cn\<lparr> udpSessionID := udpSessionID cn + 1,
                udpConnMap := (udpConnMap cn)(udpSessionID cn \<mapsto> pc) \<rparr>)"
proof -
  have "udpSessionID cn \<noteq> - 1"
    using assms(2) by auto
  then have "\<not> udpSessionID cn + 1 \<le> udpSessionID cn"
    by (simp add: inc_less_eq_self_iff_eq)
  then have lt: "udpSessionID cn < udpSessionID cn + 1"
    by simp
  show ?thesis
    using assms(1) lt by (auto simp: ids_below_counter_def dest: order.strict_trans)
qed

lemma ids_below_counter_onClose:
  "ids_below_counter cn \<Longrightarrow> ids_below_counter (ListenPacket_onClose cn k)"
  by (auto simp: ids_below_counter_def ListenPacket_onClose_def split: if_splits)



end
